theory Spec2Isabelle
  imports Main "HOL-Library.Sublist"
begin

section \<open>Python strings\<close>

text \<open>
  A Python \<open>str\<close> is modelled as a \<open>string\<close> whose characters are the code points below
  256. \<open>str.strip()\<close> removes the characters for which \<open>str.isspace()\<close> holds; below 256
  these are the code points 9 to 13, 28 to 32, 133 and 160.
\<close>

definition py_isspace :: "char \<Rightarrow> bool" where
  "py_isspace c = (of_char c \<in> {9, 10, 11, 12, 13, 28, 29, 30, 31, 32, 133, 160 :: nat})"

definition py_strip :: "string \<Rightarrow> string" where
  "py_strip s = rev (dropWhile py_isspace (rev (dropWhile py_isspace s)))"

text \<open>\<open>sub in s\<close> on two strings: \<open>sub\<close> occurs in \<open>s\<close> as a contiguous substring.\<close>

fun py_in_str :: "string \<Rightarrow> string \<Rightarrow> bool" where
  "py_in_str sub [] = (sub = [])"
| "py_in_str sub (c # cs) = (prefix sub (c # cs) \<or> py_in_str sub cs)"

text \<open>\<open>str(n)\<close> for a Python \<open>int\<close>, as the f-string of the timeout message formats it.\<close>

function str_nat :: "nat \<Rightarrow> string" where
  "str_nat n = (if n < 10 then [char_of (48 + n)] else str_nat (n div 10) @ [char_of (48 + n mod 10)])"
  by pat_completeness auto
termination
  by (relation "measure id") auto

definition py_str_int :: "int \<Rightarrow> string" where
  "py_str_int i = (if i < 0 then CHR ''-'' # str_nat (nat (- i)) else str_nat (nat i))"

section \<open>Exceptions, JSON values and the outside world\<close>

text \<open>
  The exceptions are the instances of Python's \<open>Exception\<close>, which is what \<open>subprocess\<close>,
  \<open>requests\<close> and the operations on the parsed payload raise. An exception is told apart
  by the \<open>except\<close> clause of the source that matches it, and carries its \<open>str(e)\<close>.
\<close>

datatype exn_class = TimeoutExpired | FileNotFoundError | ImportError | OtherException

datatype exn = Exn (exn_class: exn_class) (exn_str: string)

text \<open>What \<open>response.json()\<close> can return. The value of a number is never inspected.\<close>

datatype json = JNull | JBool bool | JNum int | JStr string | JArr "json list"
  | JObj "(string \<times> json) list"

text \<open>
  The outcome of a subprocess that was waited for (\<open>subprocess.run\<close>, or
  \<open>Popen.communicate\<close>): an exception, or the exit status with the captured streams.
\<close>

datatype run_outcome = RunRaises exn
  | RunCompleted (returncode: int) (stdout: string) (stderr: string)

datatype json_outcome = JsonRaises exn | JsonValue json

datatype post_outcome = PostRaises exn | PostResponse (status_code: int) json_outcome

text \<open>
  \<open>get_response\<close> makes each of its external calls at most once, so the world it runs in
  is one outcome per call site.
\<close>

record env =
  ollama_list :: run_outcome
  import_requests :: "exn option"
  requests_post :: post_outcome
  popen :: "exn option"
  communicate :: run_outcome

text \<open>The external calls a dispatch makes, in order, with the timeout each was given.\<close>

datatype event =
    RunOllamaList int
  | ImportRequests
  | Post string string int
  | Popen string
  | Communicate string int

section \<open>ChatBot\<close>

record chatbot =
  model_name :: string
  timeout_seconds :: int

definition ChatBot :: "int \<Rightarrow> chatbot" where
  "ChatBot t = \<lparr>model_name = ''llama3.2'', timeout_seconds = t\<rparr>"

text \<open>
  The calls of \<open>print\<close> are left out of the model: they write to the standard output
  only, which no function below reads, and are taken not to raise.

  \<open>check_model\<close> returns \<open>True\<close>, \<open>False\<close>, or falls off its end (\<open>None\<close>) when the listing
  command completed with a non-zero exit status.
\<close>

datatype pyval = PyBool bool | PyNone

definition truthy :: "pyval \<Rightarrow> bool" where
  "truthy v = (case v of PyBool b \<Rightarrow> b | PyNone \<Rightarrow> False)"

definition check_model :: "chatbot \<Rightarrow> env \<Rightarrow> pyval" where
  "check_model self e =
     (case ollama_list e of
        RunRaises ex \<Rightarrow> PyBool False
      | RunCompleted rc out err \<Rightarrow>
          if rc = 0 then
            (if py_in_str (model_name self) out then PyBool True else PyBool False)
          else PyNone)"

subsection \<open>The structured transport (the body of the inner \<open>try\<close>)\<close>

text \<open>\<open>'response' in result\<close>\<close>

definition json_contains_response :: "json \<Rightarrow> exn + bool" where
  "json_contains_response j =
     (case j of
        JObj kvs \<Rightarrow> Inr (''response'' \<in> set (map fst kvs))
      | JArr xs \<Rightarrow> Inr (JStr ''response'' \<in> set xs)
      | JStr s \<Rightarrow> Inr (py_in_str ''response'' s)
      | _ \<Rightarrow> Inl (Exn OtherException ''TypeError''))"

text \<open>\<open>result['response']\<close>\<close>

definition json_get_response :: "json \<Rightarrow> exn + json" where
  "json_get_response j =
     (case j of
        JObj kvs \<Rightarrow>
          (case map_of kvs ''response'' of
             Some v \<Rightarrow> Inr v
           | None \<Rightarrow> Inl (Exn OtherException ''KeyError''))
      | _ \<Rightarrow> Inl (Exn OtherException ''TypeError''))"

text \<open>\<open>.strip()\<close> on the value of the field\<close>

definition json_strip :: "json \<Rightarrow> exn + string" where
  "json_strip v =
     (case v of
        JStr s \<Rightarrow> Inr (py_strip s)
      | _ \<Rightarrow> Inl (Exn OtherException ''AttributeError''))"

text \<open>
  The statements after a status of 200: \<open>Some s\<close> is \<open>return s\<close>.
\<close>

definition api_payload :: "json_outcome \<Rightarrow> exn + string option" where
  "api_payload jo =
     (case jo of
        JsonRaises ex \<Rightarrow> Inl ex
      | JsonValue result \<Rightarrow>
          (case json_contains_response result of
             Inl ex \<Rightarrow> Inl ex
           | Inr True \<Rightarrow>
               (case json_get_response result of
                  Inl ex \<Rightarrow> Inl ex
                | Inr v \<Rightarrow>
                    (case json_strip v of
                       Inl ex \<Rightarrow> Inl ex
                     | Inr s \<Rightarrow> Inr (Some s)))
           | Inr False \<Rightarrow>
               Inr (Some ''Received unexpected response format from Llama API.'')))"

text \<open>
  The body of the inner \<open>try\<close>: \<open>Inl\<close> is an exception raised in it, \<open>Inr (Some s)\<close> is
  \<open>return s\<close>, \<open>Inr None\<close> is reaching its end (a status other than 200).
\<close>

definition api_body :: "chatbot \<Rightarrow> env \<Rightarrow> string \<Rightarrow> event list \<times> (exn + string option)" where
  "api_body self e user_message =
     (case import_requests e of
        Some ex \<Rightarrow> ([ImportRequests], Inl ex)
      | None \<Rightarrow>
          ([ImportRequests, Post (model_name self) user_message (timeout_seconds self)],
           (case requests_post e of
              PostRaises ex \<Rightarrow> Inl ex
            | PostResponse sc jo \<Rightarrow> if sc = 200 then api_payload jo else Inr None)))"

text \<open>
  The inner \<open>try\<close> with its two handlers, \<open>except ImportError\<close> and \<open>except Exception\<close>:
  both print and go on to the statements after the \<open>try\<close>.
\<close>

definition api_attempt :: "chatbot \<Rightarrow> env \<Rightarrow> string \<Rightarrow> event list \<times> string option" where
  "api_attempt self e user_message =
     (case api_body self e user_message of
        (evs, Inr r) \<Rightarrow> (evs, r)
      | (evs, Inl ex) \<Rightarrow>
          if exn_class ex = ImportError then (evs, None)
          else (evs, None))"

subsection \<open>The process transport\<close>

definition run_process :: "chatbot \<Rightarrow> env \<Rightarrow> string \<Rightarrow> event list \<times> (exn + string)" where
  "run_process self e user_message =
     (case popen e of
        Some ex \<Rightarrow> ([Popen (model_name self)], Inl ex)
      | None \<Rightarrow>
          ([Popen (model_name self),
            Communicate (user_message @ ''\<newline>'') (timeout_seconds self)],
           (case communicate e of
              RunRaises ex \<Rightarrow> Inl ex
            | RunCompleted rc out err \<Rightarrow>
                if rc \<noteq> 0 then
                  Inr (''Error running Llama model: '' @
                       (if err \<noteq> [] then py_strip err else ''Unknown error''))
                else
                  (let response = py_strip out in
                   if response = [] then
                     Inr ''I'm sorry, I couldn't generate a response right now. Please try again.''
                   else Inr response))))"

subsection \<open>\<open>get_response\<close>\<close>

definition model_unavailable :: "chatbot \<Rightarrow> string" where
  "model_unavailable self =
     ''Error: Model '' @ [CHR 0x27] @ model_name self @
     ''' is not available. Please run 'ollama pull '' @ model_name self @
     ''' to download it.''"

text \<open>The body of the outer \<open>try\<close>.\<close>

definition get_response_body :: "chatbot \<Rightarrow> env \<Rightarrow> string \<Rightarrow> event list \<times> (exn + string)" where
  "get_response_body self e user_message =
     (if \<not> truthy (check_model self e) then ([RunOllamaList 10], Inr (model_unavailable self))
      else
        (case api_attempt self e user_message of
           (evs, Some s) \<Rightarrow> (RunOllamaList 10 # evs, Inr s)
         | (evs, None) \<Rightarrow>
             (case run_process self e user_message of
                (evs', r) \<Rightarrow> (RunOllamaList 10 # evs @ evs', r))))"

text \<open>The three handlers of the outer \<open>try\<close>, in the source's order.\<close>

definition handle_outer :: "chatbot \<Rightarrow> exn \<Rightarrow> exn + string" where
  "handle_outer self ex =
     (if exn_class ex = TimeoutExpired then
        Inr (''The request is taking longer than expected (over '' @
             py_str_int (timeout_seconds self div 60) @
             '' minutes). This can happen with complex or very long prompts. You can try:\<newline>\<newline>1. Breaking your question into smaller parts\<newline>2. Waiting a bit longer and trying again\<newline>3. Using a shorter, more specific prompt'')
      else if exn_class ex = FileNotFoundError then
        Inr ''Error: Ollama is not installed or not found in PATH. Please install Ollama first.''
      else
        Inr (''I encountered an error: '' @ exn_str ex @ ''. Please try again.''))"

text \<open>
  \<open>get_response\<close>: the calls it made, and \<open>Inr\<close> the string it returns or \<open>Inl\<close> the exception
  that leaves it.
\<close>

definition get_response :: "chatbot \<Rightarrow> env \<Rightarrow> string \<Rightarrow> event list \<times> (exn + string)" where
  "get_response self e user_message =
     (case get_response_body self e user_message of
        (evs, Inr s) \<Rightarrow> (evs, Inr s)
      | (evs, Inl ex) \<Rightarrow> (evs, handle_outer self ex))"

section \<open>Vocabulary of the properties\<close>

text \<open>Counting the transport calls in the record of a dispatch.\<close>

fun is_post :: "event \<Rightarrow> bool" where
  "is_post (Post m p t) = True"
| "is_post ev = False"

fun is_popen :: "event \<Rightarrow> bool" where
  "is_popen (Popen m) = True"
| "is_popen ev = False"

fun is_communicate :: "event \<Rightarrow> bool" where
  "is_communicate (Communicate i t) = True"
| "is_communicate ev = False"

definition count_post :: "event list \<Rightarrow> nat" where
  "count_post evs = length (filter is_post evs)"

definition count_popen :: "event list \<Rightarrow> nat" where
  "count_popen evs = length (filter is_popen evs)"

definition count_communicate :: "event list \<Rightarrow> nat" where
  "count_communicate evs = length (filter is_communicate evs)"

text \<open>
  The time a transport attempt may wait: the timeout it was started with. The budget a
  dispatch grants to its transports is the sum over its attempts.
\<close>

fun granted :: "event \<Rightarrow> int" where
  "granted (Post m p t) = t"
| "granted (Communicate i t) = t"
| "granted ev = 0"

definition transport_budget :: "event list \<Rightarrow> int" where
  "transport_budget evs = sum_list (map granted evs)"

text \<open>
  The structured transport succeeds when the library is importable, the status is 200 and
  the parsed payload is an object whose \<open>response\<close> field is a string.
\<close>

definition payload_has_text_response :: "json \<Rightarrow> bool" where
  "payload_has_text_response j =
     (case j of
        JObj kvs \<Rightarrow> (case map_of kvs ''response'' of Some (JStr s) \<Rightarrow> True | _ \<Rightarrow> False)
      | _ \<Rightarrow> False)"

definition structured_success :: "env \<Rightarrow> bool" where
  "structured_success e =
     (import_requests e = None \<and>
      (case requests_post e of
         PostResponse sc (JsonValue j) \<Rightarrow> sc = 200 \<and> payload_has_text_response j
       | _ \<Rightarrow> False))"

text \<open>
  A reply of status 200 whose parsed payload does not contain \<open>response\<close> (Python's
  \<open>in\<close> answers \<open>False\<close>): the source returns its fixed message for it.
\<close>

definition unexpected_format :: "env \<Rightarrow> bool" where
  "unexpected_format e =
     (import_requests e = None \<and>
      (case requests_post e of
         PostResponse sc (JsonValue j) \<Rightarrow> sc = 200 \<and> json_contains_response j = Inr False
       | _ \<Rightarrow> False))"

subsection \<open>Concrete worlds\<close>

text \<open>
  The model is installed, the engine answers the request with
  \<open>{"response": "Hello!"}\<close>, and \<open>ollama run\<close> would print \<open>Hi there\<close>.
\<close>

definition env_ok :: env where
  "env_ok =
     \<lparr>ollama_list = RunCompleted 0 ''NAME ID SIZE\<newline>llama3.2:latest a80c4f17acd5 2.0 GB\<newline>'' [],
      import_requests = None,
      requests_post = PostResponse 200 (JsonValue (JObj [(''model'', JStr ''llama3.2''),
        (''response'', JStr ''Hello!''), (''done'', JBool True)])),
      popen = None,
      communicate = RunCompleted 0 ''Hi there\<newline>'' []\<rparr>"

text \<open>The engine's server is down: nothing listens on the port.\<close>

definition connection_refused :: exn where
  "connection_refused = Exn OtherException ''Connection refused''"

definition env_api_down :: env where
  "env_api_down = env_ok\<lparr>requests_post := PostRaises connection_refused\<rparr>"

text \<open>The engine answers 200 with \<open>{"error": "boom"}\<close>, an object without the field.\<close>

definition env_missing_field :: env where
  "env_missing_field =
     env_ok\<lparr>requests_post := PostResponse 200 (JsonValue (JObj [(''error'', JStr ''boom'')]))\<rparr>"

text \<open>The engine answers 200 with \<open>{"response": "  "}\<close>, a blank text.\<close>

definition env_blank_response :: env where
  "env_blank_response =
     env_ok\<lparr>requests_post := PostResponse 200 (JsonValue (JObj [(''response'', JStr ''  '')]))\<rparr>"

text \<open>\<open>ollama list\<close> exits with status 1, as it does when the server is not running.\<close>

definition env_list_fails :: env where
  "env_list_fails =
     env_ok\<lparr>ollama_list := RunCompleted 1 [] ''Error: could not connect to ollama app, is it running?''\<rparr>"

text \<open>The \<open>requests\<close> package is not installed.\<close>

definition env_no_requests :: env where
  "env_no_requests =
     env_ok\<lparr>import_requests := Some (Exn ImportError ''No module named 'requests' '')\<rparr>"

text \<open>The engine runs, but \<open>llama3.2\<close> has not been pulled.\<close>

definition env_not_installed :: env where
  "env_not_installed =
     env_ok\<lparr>ollama_list := RunCompleted 0 ''NAME ID SIZE\<newline>mistral:latest f974a74358d6 4.1 GB\<newline>'' []\<rparr>"

text \<open>
  Both transports run out of time: the request raises the read timeout of \<open>requests\<close>,
  and \<open>communicate\<close> raises \<open>subprocess.TimeoutExpired\<close>.
\<close>

definition env_both_timeout :: env where
  "env_both_timeout =
     env_ok\<lparr>requests_post := PostRaises (Exn OtherException ''Read timed out. (read timeout=120)''),
            communicate := RunRaises (Exn TimeoutExpired ''timed out after 120 seconds'')\<rparr>"

text \<open>The server is down and \<open>ollama run\<close> exits with status 1 and a message on stderr.\<close>

definition env_process_error :: env where
  "env_process_error =
     env_api_down\<lparr>communicate := RunCompleted 1 [] ''Error: model not loaded\<newline>''\<rparr>"

text \<open>The server is down and \<open>ollama run\<close> exits with status 0 and prints a blank line.\<close>

definition env_process_blank :: env where
  "env_process_blank = env_api_down\<lparr>communicate := RunCompleted 0 '' \<newline>'' []\<rparr>"

text \<open>
  The engine answers 200 with a text that has a space and a tab in front of it and a space,
  a carriage return and a line feed behind it.
\<close>

definition env_padded_response :: env where
  "env_padded_response =
     env_ok\<lparr>requests_post := PostResponse 200 (JsonValue (JObj
       [(''response'', JStr ('' '' @ [CHR 0x09] @ ''Hello, world! '' @ [CHR 0x0D] @ ''\<newline>''))]))\<rparr>"

text \<open>The engine answers \<open>{"response": "Hello!"}\<close> with the status 201, another 2xx status.\<close>

definition env_created :: env where
  "env_created =
     env_ok\<lparr>requests_post := PostResponse 201 (JsonValue (JObj [(''response'', JStr ''Hello!'')]))\<rparr>"

section \<open>Properties of the parts\<close>

lemma py_in_str_sublist: "py_in_str sub s = sublist sub s"
  by (induction s) (auto simp: sublist_Cons_right)

text \<open>
  \<open>py_strip\<close> removes a prefix and a suffix made of whitespace only, and what it leaves
  neither starts nor ends with whitespace.
\<close>

lemma strip_right_split:
  "xs = rev (dropWhile P (rev xs)) @ rev (takeWhile P (rev xs))"
  by (metis takeWhile_dropWhile_id rev_append rev_rev_ident)

lemma py_strip_decomp:
  "\<exists>pre post. s = pre @ py_strip s @ post \<and> list_all py_isspace pre \<and> list_all py_isspace post"
proof -
  define t where "t = dropWhile py_isspace s"
  have "s = takeWhile py_isspace s @ t"
    by (simp add: t_def)
  moreover have "t = py_strip s @ rev (takeWhile py_isspace (rev t))"
    unfolding py_strip_def t_def by (rule strip_right_split)
  ultimately have "s = takeWhile py_isspace s @ py_strip s @ rev (takeWhile py_isspace (rev t))"
    by simp
  moreover have "list_all py_isspace (takeWhile py_isspace s)"
    by (auto simp: list_all_iff dest: set_takeWhileD)
  moreover have "list_all py_isspace (rev (takeWhile py_isspace (rev t)))"
    by (auto simp: list_all_iff dest: set_takeWhileD)
  ultimately show ?thesis by blast
qed

lemma py_strip_last: "list_all (\<lambda>c. \<not> py_isspace c) (take 1 (rev (py_strip s)))"
proof (cases "dropWhile py_isspace (rev (dropWhile py_isspace s))")
  case Nil
  show ?thesis unfolding py_strip_def rev_rev_ident Nil by simp
next
  case (Cons c cs)
  have "\<not> py_isspace (hd (dropWhile py_isspace (rev (dropWhile py_isspace s))))"
    by (rule hd_dropWhile) (simp add: Cons)
  then have "\<not> py_isspace c" unfolding Cons by simp
  then show ?thesis unfolding py_strip_def rev_rev_ident Cons by simp
qed

lemma py_strip_first: "list_all (\<lambda>c. \<not> py_isspace c) (take 1 (py_strip s))"
proof (cases "py_strip s")
  case Nil
  then show ?thesis by simp
next
  case (Cons c cs)
  define t where "t = dropWhile py_isspace s"
  have "t = py_strip s @ rev (takeWhile py_isspace (rev t))"
    unfolding py_strip_def t_def by (rule strip_right_split)
  then obtain post where "t = (c # cs) @ post" unfolding Cons by blast
  then have "t \<noteq> []" and "hd t = c" by simp_all
  then have "\<not> py_isspace c"
    unfolding t_def by (metis hd_dropWhile)
  with Cons show ?thesis by simp
qed

lemma check_model_cases:
  "check_model self e =
     (case ollama_list e of
        RunRaises ex \<Rightarrow> PyBool False
      | RunCompleted rc out err \<Rightarrow>
          if rc \<noteq> 0 then PyNone else PyBool (sublist (model_name self) out))"
  by (simp add: check_model_def py_in_str_sublist split: run_outcome.splits)

lemma fst_api_attempt:
  "fst (api_attempt self e msg) =
     (if import_requests e = None
      then [ImportRequests, Post (model_name self) msg (timeout_seconds self)]
      else [ImportRequests])"
  by (simp add: api_attempt_def api_body_def split: option.splits sum.splits)

lemma api_payload_text:
  "map_of kvs ''response'' = Some (JStr s) \<Longrightarrow>
   api_payload (JsonValue (JObj kvs)) = Inr (Some (py_strip s))"
proof -
  assume m: "map_of kvs ''response'' = Some (JStr s)"
  then have "(''response'', JStr s) \<in> set kvs" by (rule map_of_SomeD)
  then have "''response'' \<in> fst ` set kvs" by force
  with m show ?thesis
    by (simp add: api_payload_def json_contains_response_def json_get_response_def json_strip_def)
qed

lemma api_payload_unexpected:
  "json_contains_response j = Inr False \<Longrightarrow>
   api_payload (JsonValue j) = Inr (Some ''Received unexpected response format from Llama API.'')"
  by (simp add: api_payload_def)

lemma api_payload_raises:
  assumes "\<not> payload_has_text_response j" and "json_contains_response j \<noteq> Inr False"
  shows "\<exists>ex. api_payload (JsonValue j) = Inl ex"
proof (cases j)
  case (JObj kvs)
  show ?thesis
  proof (cases "map_of kvs ''response''")
    case None
    then have "''response'' \<notin> fst ` set kvs" by (simp add: map_of_eq_None_iff)
    with assms(2) JObj show ?thesis by (simp add: json_contains_response_def)
  next
    case (Some v)
    then have "(''response'', v) \<in> set kvs" by (rule map_of_SomeD)
    then have "''response'' \<in> fst ` set kvs" by force
    moreover from assms(1) JObj Some have "\<exists>ex. json_strip v = Inl ex"
      by (cases v) (simp_all add: payload_has_text_response_def json_strip_def)
    ultimately show ?thesis using JObj Some
      by (auto simp: api_payload_def json_contains_response_def json_get_response_def)
  qed
qed (use assms in \<open>auto simp: api_payload_def json_contains_response_def json_get_response_def\<close>)

lemma snd_api_attempt_success:
  "import_requests e = None \<Longrightarrow>
   requests_post e = PostResponse 200 (JsonValue (JObj kvs)) \<Longrightarrow>
   map_of kvs ''response'' = Some (JStr s) \<Longrightarrow>
   snd (api_attempt self e msg) = Some (py_strip s)"
  by (simp add: api_attempt_def api_body_def api_payload_text)

lemma snd_api_attempt_unexpected:
  "unexpected_format e \<Longrightarrow>
   snd (api_attempt self e msg) = Some ''Received unexpected response format from Llama API.''"
  by (auto simp: unexpected_format_def api_attempt_def api_body_def api_payload_unexpected
      split: post_outcome.splits json_outcome.splits)

lemma snd_api_attempt_fallback:
  assumes "\<not> structured_success e" and "\<not> unexpected_format e"
  shows "snd (api_attempt self e msg) = None"
proof (cases "import_requests e")
  case (Some ex)
  then show ?thesis by (simp add: api_attempt_def api_body_def)
next
  case None
  show ?thesis
  proof (cases "requests_post e")
    case (PostRaises ex)
    with None show ?thesis by (simp add: api_attempt_def api_body_def)
  next
    case (PostResponse sc jo)
    show ?thesis
    proof (cases "sc = 200")
      case False
      with None PostResponse show ?thesis by (simp add: api_attempt_def api_body_def)
    next
      case True
      show ?thesis
      proof (cases jo)
        case (JsonRaises ex)
        with None PostResponse True show ?thesis
          by (simp add: api_attempt_def api_body_def api_payload_def)
      next
        case (JsonValue j)
        with assms None PostResponse True
        have "\<not> payload_has_text_response j" and "json_contains_response j \<noteq> Inr False"
          by (simp_all add: structured_success_def unexpected_format_def)
        then obtain ex where "api_payload (JsonValue j) = Inl ex"
          using api_payload_raises by blast
        with None PostResponse True JsonValue show ?thesis
          by (simp add: api_attempt_def api_body_def)
      qed
    qed
  qed
qed

lemma get_response_unfold:
  "get_response self e msg =
     (if \<not> truthy (check_model self e) then ([RunOllamaList 10], Inr (model_unavailable self))
      else
        (case snd (api_attempt self e msg) of
           Some s \<Rightarrow> (RunOllamaList 10 # fst (api_attempt self e msg), Inr s)
         | None \<Rightarrow>
             (RunOllamaList 10 # fst (api_attempt self e msg) @ fst (run_process self e msg),
              (case snd (run_process self e msg) of
                 Inr s \<Rightarrow> Inr s
               | Inl ex \<Rightarrow> handle_outer self ex))))"
  by (simp add: get_response_def get_response_body_def split: prod.splits option.splits sum.splits)

lemma fst_run_process:
  "fst (run_process self e msg) =
     (if popen e = None
      then [Popen (model_name self), Communicate (msg @ ''\<newline>'') (timeout_seconds self)]
      else [Popen (model_name self)])"
  by (simp add: run_process_def split: option.splits)

lemma handle_outer_returns: "\<exists>s. handle_outer self ex = Inr s"
  by (simp add: handle_outer_def)

lemma snd_run_process_completed:
  "popen e = None \<Longrightarrow> communicate e = RunCompleted rc out err \<Longrightarrow>
   snd (run_process self e msg) =
     Inr (if rc \<noteq> 0 then ''Error running Llama model: '' @
                            (if err = [] then ''Unknown error'' else py_strip err)
          else if py_strip out = []
               then ''I'm sorry, I couldn't generate a response right now. Please try again.''
               else py_strip out)"
  by (simp add: run_process_def)

lemma count_popen_run_process: "count_popen (fst (run_process self e msg)) = 1"
  by (simp add: fst_run_process count_popen_def)

lemma count_popen_api_attempt: "count_popen (fst (api_attempt self e msg)) = 0"
  by (simp add: fst_api_attempt count_popen_def)

lemma count_popen_append: "count_popen (xs @ ys) = count_popen xs + count_popen ys"
  by (simp add: count_popen_def)

lemma count_popen_Cons: "count_popen (x # xs) = (if is_popen x then 1 else 0) + count_popen xs"
  by (simp add: count_popen_def)

lemmas eval_simps = get_response_def get_response_body_def api_attempt_def api_body_def
  api_payload_def run_process_def handle_outer_def json_contains_response_def
  json_get_response_def json_strip_def py_strip_def py_isspace_def truthy_def check_model_def
  ChatBot_def model_unavailable_def

section \<open>The claims\<close>

subsection \<open>C1: fallback after a failed structured attempt\<close>

text \<open>
  C1, as stated: whenever the model is known and the structured transport does not
  succeed, for whatever reason, the process transport is attempted exactly once and no
  failure of the structured transport is the result of the dispatch. It fails for a reply
  of status 200 whose payload \<open>{"error": "boom"}\<close> lacks the \<open>response\<close> field: the fixed
  message about the unexpected format is returned and no process is started.
\<close>

theorem missing_field_returned_without_fallback:
  "truthy (check_model (ChatBot 120) env_missing_field) \<and>
   \<not> structured_success env_missing_field \<and>
   count_popen (fst (get_response (ChatBot 120) env_missing_field ''Hi'')) \<noteq> 1 \<and>
   snd (get_response (ChatBot 120) env_missing_field ''Hi'') =
     Inr ''Received unexpected response format from Llama API.''"
  by (simp add: eval_simps env_missing_field_def env_ok_def structured_success_def
      payload_has_text_response_def count_popen_def)

text \<open>
  C1, amended: when the model is known and the structured transport does not succeed, the
  process transport is attempted exactly once, unless the reply has status 200 and a
  payload that does not contain \<open>response\<close>; for such a reply the dispatch makes no
  further call and returns the fixed message about the unexpected format.
\<close>

theorem fallback_once_unless_unexpected_format:
  assumes "truthy (check_model self e)"
  shows "(\<not> structured_success e \<and> \<not> unexpected_format e \<longrightarrow>
            count_popen (fst (get_response self e msg)) = 1) \<and>
         (unexpected_format e \<longrightarrow>
            get_response self e msg =
              ([RunOllamaList 10, ImportRequests, Post (model_name self) msg (timeout_seconds self)],
               Inr ''Received unexpected response format from Llama API.''))"
proof (intro conjI impI)
  assume "\<not> structured_success e \<and> \<not> unexpected_format e"
  then have "snd (api_attempt self e msg) = None"
    by (simp add: snd_api_attempt_fallback)
  with assms show "count_popen (fst (get_response self e msg)) = 1"
    by (simp add: get_response_unfold count_popen_Cons count_popen_append
        count_popen_api_attempt count_popen_run_process)
next
  assume u: "unexpected_format e"
  then have "import_requests e = None" by (simp add: unexpected_format_def)
  with assms u show "get_response self e msg =
      ([RunOllamaList 10, ImportRequests, Post (model_name self) msg (timeout_seconds self)],
       Inr ''Received unexpected response format from Llama API.'')"
    by (simp add: get_response_unfold snd_api_attempt_unexpected fst_api_attempt)
qed

text \<open>
  Witness for C1: with the server down the process is started once; with the payload
  \<open>{"error": "boom"}\<close> the fixed message is returned after the request.
\<close>

theorem fallback_once_unless_unexpected_format_witness:
  "truthy (check_model (ChatBot 120) env_api_down) \<and>
   \<not> structured_success env_api_down \<and> \<not> unexpected_format env_api_down \<and>
   count_popen (fst (get_response (ChatBot 120) env_api_down ''Hi'')) = 1 \<and>
   truthy (check_model (ChatBot 120) env_missing_field) \<and>
   unexpected_format env_missing_field \<and>
   get_response (ChatBot 120) env_missing_field ''Hi'' =
     ([RunOllamaList 10, ImportRequests, Post ''llama3.2'' ''Hi'' 120],
      Inr ''Received unexpected response format from Llama API.'')"
proof -
  have t1: "truthy (check_model (ChatBot 120) env_api_down)"
    by (simp add: truthy_def check_model_def ChatBot_def env_api_down_def env_ok_def)
  have f1: "\<not> structured_success env_api_down" "\<not> unexpected_format env_api_down"
    by (simp_all add: structured_success_def unexpected_format_def env_api_down_def env_ok_def)
  have t2: "truthy (check_model (ChatBot 120) env_missing_field)"
    by (simp add: truthy_def check_model_def ChatBot_def env_missing_field_def env_ok_def)
  have u2: "unexpected_format env_missing_field"
    by (simp add: unexpected_format_def json_contains_response_def env_missing_field_def
        env_ok_def)
  from fallback_once_unless_unexpected_format [OF t1, of "''Hi''"] f1
  have "count_popen (fst (get_response (ChatBot 120) env_api_down ''Hi'')) = 1"
    by blast
  moreover from fallback_once_unless_unexpected_format [OF t2, of "''Hi''"] u2
  have "get_response (ChatBot 120) env_missing_field ''Hi'' =
     ([RunOllamaList 10, ImportRequests, Post ''llama3.2'' ''Hi'' 120],
      Inr ''Received unexpected response format from Llama API.'')"
    by (simp add: ChatBot_def)
  ultimately show ?thesis using t1 f1 t2 u2 by simp
qed

subsection \<open>C2: an unknown model stops the dispatch\<close>

text \<open>
  C2: when \<open>check_model\<close> does not report the model as known (it returns \<open>False\<close> or
  \<open>None\<close>), \<open>get_response\<close> returns the message that the model is not available, and the
  only call it has made is the listing of the availability check: no request is posted
  and no process is started.
\<close>

theorem unknown_model_no_transport:
  assumes "\<not> truthy (check_model self e)"
  shows "get_response self e msg = ([RunOllamaList 10], Inr (model_unavailable self)) \<and>
         count_post (fst (get_response self e msg)) = 0 \<and>
         count_popen (fst (get_response self e msg)) = 0"
  using assms by (simp add: get_response_unfold count_post_def count_popen_def)

text \<open>Witness for C2: the engine lists another model only.\<close>

theorem unknown_model_no_transport_witness:
  "\<not> truthy (check_model (ChatBot 120) env_not_installed) \<and>
   get_response (ChatBot 120) env_not_installed ''Hi'' =
     ([RunOllamaList 10],
      Inr ''Error: Model 'llama3.2' is not available. Please run 'ollama pull llama3.2' to download it.'')"
proof -
  have h: "\<not> truthy (check_model (ChatBot 120) env_not_installed)"
    by (simp add: truthy_def check_model_def ChatBot_def env_not_installed_def env_ok_def)
  from unknown_model_no_transport [OF h, of "''Hi''"] h show ?thesis
    by (simp add: model_unavailable_def ChatBot_def)
qed

subsection \<open>C3: an empty text from the structured transport\<close>

text \<open>
  C3 says that a dispatch never returns the empty string as its answer. The process
  transport checks for an empty text; the structured transport does not: for the reply
  \<open>{"response": "  "}\<close> of status 200, \<open>get_response\<close> returns the empty string.
\<close>

theorem blank_structured_response_returned_empty:
  "get_response (ChatBot 120) env_blank_response ''Hi'' =
     ([RunOllamaList 10, ImportRequests, Post ''llama3.2'' ''Hi'' 120], Inr [])"
  by (simp add: eval_simps env_blank_response_def env_ok_def)

subsection \<open>C4: a successful structured attempt\<close>

text \<open>
  C4, as stated: when the model is known and the structured transport returns a success
  status with a payload that has the textual \<open>response\<close> field, the result is that text,
  stripped, and the process transport is never started. It fails for a success status
  other than 200: the reply \<open>{"response": "Hello!"}\<close> with status 201 is treated as a
  failure, the process is started, and the answer is the output of the process.
\<close>

theorem created_status_falls_back:
  "truthy (check_model (ChatBot 120) env_created) \<and>
   import_requests env_created = None \<and>
   requests_post env_created = PostResponse 201 (JsonValue (JObj [(''response'', JStr ''Hello!'')])) \<and>
   get_response (ChatBot 120) env_created ''Hi'' =
     ([RunOllamaList 10, ImportRequests, Post ''llama3.2'' ''Hi'' 120,
       Popen ''llama3.2'', Communicate ''Hi\<newline>'' 120], Inr ''Hi there'') \<and>
   snd (get_response (ChatBot 120) env_created ''Hi'') \<noteq> Inr ''Hello!'' \<and>
   count_popen (fst (get_response (ChatBot 120) env_created ''Hi'')) \<noteq> 0"
  by (simp add: eval_simps env_created_def env_ok_def count_popen_def)

text \<open>
  C4, amended: when the model is known and the request is answered with the status 200
  and an object whose \<open>response\<close> field is the string \<open>s\<close>, \<open>get_response\<close> returns \<open>s\<close>
  with leading and trailing whitespace stripped and no process is started. Stripped
  means: \<open>s\<close> is the result between a prefix and a suffix of whitespace only, and the
  result neither starts nor ends with whitespace. With any other status, 2xx included,
  the same payload is not read and the process transport is attempted once.
\<close>

theorem structured_success_returns_stripped_text:
  assumes "truthy (check_model self e)" and "import_requests e = None"
    and "requests_post e = PostResponse sc (JsonValue (JObj kvs))"
    and "map_of kvs ''response'' = Some (JStr s)"
  shows "(sc = 200 \<longrightarrow>
            get_response self e msg =
              ([RunOllamaList 10, ImportRequests, Post (model_name self) msg (timeout_seconds self)],
               Inr (py_strip s)) \<and>
            count_popen (fst (get_response self e msg)) = 0 \<and>
            (\<exists>pre post. s = pre @ py_strip s @ post \<and>
               list_all py_isspace pre \<and> list_all py_isspace post) \<and>
            list_all (\<lambda>c. \<not> py_isspace c) (take 1 (py_strip s)) \<and>
            list_all (\<lambda>c. \<not> py_isspace c) (take 1 (rev (py_strip s)))) \<and>
         (sc \<noteq> 200 \<longrightarrow> count_popen (fst (get_response self e msg)) = 1)"
proof (intro conjI impI)
  assume sc: "sc = 200"
  with assms(3) have p: "requests_post e = PostResponse 200 (JsonValue (JObj kvs))" by simp
  from assms(1,2)
  show "get_response self e msg =
      ([RunOllamaList 10, ImportRequests, Post (model_name self) msg (timeout_seconds self)],
       Inr (py_strip s))"
    by (simp add: get_response_unfold snd_api_attempt_success [OF assms(2) p assms(4)]
        fst_api_attempt)
  from assms(1,2)
  show "count_popen (fst (get_response self e msg)) = 0"
    by (simp add: get_response_unfold snd_api_attempt_success [OF assms(2) p assms(4)]
        fst_api_attempt count_popen_def)
  show "\<exists>pre post. s = pre @ py_strip s @ post \<and> list_all py_isspace pre \<and> list_all py_isspace post"
    by (rule py_strip_decomp)
  show "list_all (\<lambda>c. \<not> py_isspace c) (take 1 (py_strip s))" by (rule py_strip_first)
  show "list_all (\<lambda>c. \<not> py_isspace c) (take 1 (rev (py_strip s)))" by (rule py_strip_last)
next
  assume "sc \<noteq> 200"
  with assms(3) have "\<not> structured_success e" and "\<not> unexpected_format e"
    by (simp_all add: structured_success_def unexpected_format_def)
  then have "snd (api_attempt self e msg) = None" by (rule snd_api_attempt_fallback)
  with assms(1) show "count_popen (fst (get_response self e msg)) = 1"
    by (simp add: get_response_unfold count_popen_Cons count_popen_append
        count_popen_api_attempt count_popen_run_process)
qed

text \<open>
  Witness for C4: with status 200 the text \<open>Hello, world!\<close> between a space and a tab
  in front and a space, a carriage return and a line feed behind is returned without
  them; with status 201 the process is started once.
\<close>

theorem structured_success_returns_stripped_text_witness:
  "truthy (check_model (ChatBot 120) env_padded_response) \<and>
   get_response (ChatBot 120) env_padded_response ''Hi'' =
     ([RunOllamaList 10, ImportRequests, Post ''llama3.2'' ''Hi'' 120], Inr ''Hello, world!'') \<and>
   count_popen (fst (get_response (ChatBot 120) env_padded_response ''Hi'')) = 0 \<and>
   truthy (check_model (ChatBot 120) env_created) \<and>
   count_popen (fst (get_response (ChatBot 120) env_created ''Hi'')) = 1"
proof -
  let ?s = "'' '' @ [CHR 0x09] @ ''Hello, world! '' @ [CHR 0x0D] @ ''\<newline>''"
  have t1: "truthy (check_model (ChatBot 120) env_padded_response)"
    by (simp add: truthy_def check_model_def ChatBot_def env_padded_response_def env_ok_def)
  have i1: "import_requests env_padded_response = None"
    by (simp add: env_padded_response_def env_ok_def)
  have p1: "requests_post env_padded_response =
      PostResponse 200 (JsonValue (JObj [(''response'', JStr ?s)]))"
    by (simp add: env_padded_response_def)
  have m1: "map_of [(''response'', JStr ?s)] ''response'' = Some (JStr ?s)"
    by simp
  have t2: "truthy (check_model (ChatBot 120) env_created)"
    by (simp add: truthy_def check_model_def ChatBot_def env_created_def env_ok_def)
  have i2: "import_requests env_created = None"
    by (simp add: env_created_def env_ok_def)
  have p2: "requests_post env_created =
      PostResponse 201 (JsonValue (JObj [(''response'', JStr ''Hello!'')]))"
    by (simp add: env_created_def)
  have m2: "map_of [(''response'', JStr ''Hello!'')] ''response'' = Some (JStr ''Hello!'')"
    by simp
  from structured_success_returns_stripped_text [OF t1 i1 p1 m1, of "''Hi''"]
  have "get_response (ChatBot 120) env_padded_response ''Hi'' =
     ([RunOllamaList 10, ImportRequests, Post ''llama3.2'' ''Hi'' 120], Inr ''Hello, world!'') \<and>
   count_popen (fst (get_response (ChatBot 120) env_padded_response ''Hi'')) = 0"
    by (simp add: ChatBot_def py_strip_def py_isspace_def count_popen_def)
  moreover from structured_success_returns_stripped_text [OF t2 i2 p2 m2, of "''Hi''"]
  have "count_popen (fst (get_response (ChatBot 120) env_created ''Hi'')) = 1"
    by simp
  ultimately show ?thesis using t1 t2 by blast
qed

subsection \<open>C5: the result of a completed process attempt\<close>

text \<open>
  C5: when the dispatch reaches the process transport (the model is known and the
  structured attempt neither succeeded nor returned the unexpected-format message) and
  the process completes within its timeout, the result is decided by the exit status and
  the output: a non-zero status gives the process-error message carrying the captured
  stderr (trimmed, or \<open>Unknown error\<close> when nothing was captured); status zero with a
  stdout that is empty after trimming gives the no-response message; status zero with any
  other stdout gives the trimmed stdout.
\<close>

theorem process_result_by_exit_status:
  assumes "truthy (check_model self e)" and "\<not> structured_success e" and "\<not> unexpected_format e"
    and "popen e = None" and "communicate e = RunCompleted rc out err"
  shows "(rc \<noteq> 0 \<longrightarrow> snd (get_response self e msg) =
            Inr (''Error running Llama model: '' @
                 (if err = [] then ''Unknown error'' else py_strip err))) \<and>
         (rc = 0 \<and> py_strip out = [] \<longrightarrow> snd (get_response self e msg) =
            Inr ''I'm sorry, I couldn't generate a response right now. Please try again.'') \<and>
         (rc = 0 \<and> py_strip out \<noteq> [] \<longrightarrow> snd (get_response self e msg) = Inr (py_strip out))"
proof -
  have "snd (api_attempt self e msg) = None"
    using assms(2,3) by (rule snd_api_attempt_fallback)
  with assms(1) have "snd (get_response self e msg) =
      (case snd (run_process self e msg) of Inr s \<Rightarrow> Inr s | Inl ex \<Rightarrow> handle_outer self ex)"
    by (simp add: get_response_unfold)
  then show ?thesis
    by (simp add: snd_run_process_completed [OF assms(4,5)])
qed

text \<open>
  Witness for C5, one world for each of the three cases: exit status 1 with a message on
  stderr, exit status 0 with a blank stdout, exit status 0 with \<open>Hi there\<close>.
\<close>

theorem process_result_by_exit_status_witness:
  "snd (get_response (ChatBot 120) env_process_error ''Hi'') =
     Inr ''Error running Llama model: Error: model not loaded'' \<and>
   snd (get_response (ChatBot 120) env_process_blank ''Hi'') =
     Inr ''I'm sorry, I couldn't generate a response right now. Please try again.'' \<and>
   snd (get_response (ChatBot 120) env_api_down ''Hi'') = Inr ''Hi there''"
proof -
  note c5_envs = env_process_error_def env_process_blank_def env_api_down_def env_ok_def
  have t: "truthy (check_model (ChatBot 120) env_process_error)"
    "truthy (check_model (ChatBot 120) env_process_blank)"
    "truthy (check_model (ChatBot 120) env_api_down)"
    by (simp_all add: truthy_def check_model_def ChatBot_def c5_envs)
  have s: "\<not> structured_success env_process_error" "\<not> structured_success env_process_blank"
    "\<not> structured_success env_api_down"
    by (simp_all add: structured_success_def c5_envs)
  have u: "\<not> unexpected_format env_process_error" "\<not> unexpected_format env_process_blank"
    "\<not> unexpected_format env_api_down"
    by (simp_all add: unexpected_format_def c5_envs)
  have p: "popen env_process_error = None" "popen env_process_blank = None"
    "popen env_api_down = None"
    by (simp_all add: c5_envs)
  have c1: "communicate env_process_error = RunCompleted 1 [] ''Error: model not loaded\<newline>''"
    by (simp add: c5_envs)
  have c2: "communicate env_process_blank = RunCompleted 0 '' \<newline>'' []"
    by (simp add: c5_envs)
  have c3: "communicate env_api_down = RunCompleted 0 ''Hi there\<newline>'' []"
    by (simp add: c5_envs)
  from process_result_by_exit_status [OF t(1) s(1) u(1) p(1) c1, of "''Hi''"]
  have "snd (get_response (ChatBot 120) env_process_error ''Hi'') =
     Inr ''Error running Llama model: Error: model not loaded''"
    by (simp add: py_strip_def py_isspace_def)
  moreover from process_result_by_exit_status [OF t(2) s(2) u(2) p(2) c2, of "''Hi''"]
  have "snd (get_response (ChatBot 120) env_process_blank ''Hi'') =
     Inr ''I'm sorry, I couldn't generate a response right now. Please try again.''"
    by (simp add: py_strip_def py_isspace_def)
  moreover from process_result_by_exit_status [OF t(3) s(3) u(3) p(3) c3, of "''Hi''"]
  have "snd (get_response (ChatBot 120) env_api_down ''Hi'') = Inr ''Hi there''"
    by (simp add: py_strip_def py_isspace_def)
  ultimately show ?thesis by simp
qed

subsection \<open>C6: the deadline and the two attempts\<close>

text \<open>
  C6, as stated: the deadline is one budget shared by the structured attempt and the
  process attempt, not given in full to each. It fails when both attempts are made: the
  request is posted with the timeout 120 and, after it has failed, \<open>communicate\<close> is again
  called with the timeout 120, so the time granted to the two transports is 240, which is
  more than the deadline of 120.
\<close>

theorem deadline_granted_twice:
  "fst (get_response (ChatBot 120) env_both_timeout ''Hi'') =
     [RunOllamaList 10, ImportRequests, Post ''llama3.2'' ''Hi'' 120,
      Popen ''llama3.2'', Communicate ''Hi\<newline>'' 120] \<and>
   \<not> transport_budget (fst (get_response (ChatBot 120) env_both_timeout ''Hi''))
       \<le> timeout_seconds (ChatBot 120)"
  by (simp add: eval_simps env_both_timeout_def env_ok_def transport_budget_def)

text \<open>
  C6, amended: each transport attempt of a dispatch is started with the full configured
  deadline as its own timeout, and a dispatch makes at most one attempt on each
  transport; the time granted to the transports is the deadline times the number of
  attempts, hence at most twice the deadline.
\<close>

theorem each_attempt_gets_full_deadline:
  "transport_budget (fst (get_response self e msg)) =
     timeout_seconds self *
       int (count_post (fst (get_response self e msg)) +
            count_communicate (fst (get_response self e msg))) \<and>
   count_post (fst (get_response self e msg)) \<le> 1 \<and>
   count_communicate (fst (get_response self e msg)) \<le> 1"
  by (simp add: get_response_unfold fst_api_attempt fst_run_process transport_budget_def
      count_post_def count_communicate_def split: option.splits)

subsection \<open>C7: \<open>get_response\<close> always returns a string\<close>

text \<open>
  C7: in every world and for every prompt \<open>get_response\<close> returns a string; whatever
  exception one of its calls raises, none leaves the function.
\<close>

theorem get_response_always_returns:
  "\<exists>s. snd (get_response self e msg) = Inr s"
  using handle_outer_returns [of self]
  by (auto simp: get_response_unfold split: option.splits sum.splits)

subsection \<open>C8: the availability check\<close>

text \<open>
  C8 says that \<open>check_model\<close> returns the boolean \<open>False\<close> when the listing command exits
  with a non-zero status. On that path the function reaches its end without a \<open>return\<close>:
  its value is \<open>None\<close>.
\<close>

theorem check_model_nonzero_exit_is_None:
  "check_model (ChatBot 120) env_list_fails = PyNone"
  by (simp add: check_model_def env_list_fails_def env_ok_def)

subsection \<open>C10: the HTTP library is missing\<close>

text \<open>
  C10: when the model is known and \<open>import requests\<close> raises \<open>ImportError\<close>, no request
  is posted, the dispatch goes on to the process transport, which is attempted once, and
  the result is the one the process transport gives (through the handlers of the outer
  \<open>try\<close>); the failed import itself is not reported to the caller.
\<close>

theorem import_error_skips_structured:
  assumes "truthy (check_model self e)" and "import_requests e = Some ex"
    and "exn_class ex = ImportError"
  shows "fst (get_response self e msg) =
           RunOllamaList 10 # ImportRequests # fst (run_process self e msg) \<and>
         count_post (fst (get_response self e msg)) = 0 \<and>
         count_popen (fst (get_response self e msg)) = 1 \<and>
         snd (get_response self e msg) =
           (case snd (run_process self e msg) of Inr s \<Rightarrow> Inr s | Inl x \<Rightarrow> handle_outer self x)"
proof -
  from assms(2) have "\<not> structured_success e" and "\<not> unexpected_format e"
    by (simp_all add: structured_success_def unexpected_format_def)
  then have "snd (api_attempt self e msg) = None" by (rule snd_api_attempt_fallback)
  with assms(1,2) show ?thesis
    by (simp add: get_response_unfold fst_api_attempt fst_run_process count_post_def count_popen_def)
qed

text \<open>
  Witness for C10: without the \<open>requests\<close> package the prompt goes to \<open>ollama run\<close>, whose
  output is the answer.
\<close>

theorem import_error_skips_structured_witness:
  "truthy (check_model (ChatBot 120) env_no_requests) \<and>
   get_response (ChatBot 120) env_no_requests ''Hi'' =
     ([RunOllamaList 10, ImportRequests, Popen ''llama3.2'', Communicate ''Hi\<newline>'' 120],
      Inr ''Hi there'')"
proof -
  have t: "truthy (check_model (ChatBot 120) env_no_requests)"
    by (simp add: truthy_def check_model_def ChatBot_def env_no_requests_def env_ok_def)
  have i: "import_requests env_no_requests = Some (Exn ImportError ''No module named 'requests' '')"
    by (simp add: env_no_requests_def)
  have c: "exn_class (Exn ImportError ''No module named 'requests' '') = ImportError"
    by simp
  from import_error_skips_structured [OF t i c, of "''Hi''"] t
  show ?thesis
    by (simp add: prod_eq_iff run_process_def ChatBot_def py_strip_def py_isspace_def
        env_no_requests_def env_ok_def)
qed

end
